theory Spec2Isabelle
  imports Complex_Main "HOL-Library.Multiset"
begin

section \<open>Errors and tables\<close>

text \<open>
  The exceptions that \<^verbatim>\<open>pipeline.py\<close> raises itself (\<^verbatim>\<open>ValueError\<close> with its message,
  \<^verbatim>\<open>ConnectionError\<close> naming the request) and the ones that the calls it makes raise on the
  inputs modelled here: polars on a column that is not there, on columns of unequal length,
  on a column of no type and on a string that is no date, and \<^verbatim>\<open>datetime\<close> on a date before
  year 1.
\<close>

text \<open>
  A Python \<^verbatim>\<open>str\<close> that holds a date is the list of its code points, so that a digit of any
  script can stand in it; \<open>ascii\<close> writes one from an ASCII literal. Messages and column
  names are literals of the program and stay \<open>string\<close>s.
\<close>

type_synonym str = "nat list"

abbreviation ascii :: "string \<Rightarrow> str" where
  "ascii s \<equiv> map of_char s"

datatype request = Archive str str | Forecast str str

datatype error =
    ValueError string
  | ConnectionError request
  | ColumnNotFoundError string
  | ShapeError
  | SchemaError string
  | ComputeError string
  | OverflowError

text \<open>
  A polars \<^verbatim>\<open>DataFrame\<close> whose schema is checked by the code is a list of column names and a
  list of rows. A row is a record with one field per column of the table; the field of a
  column that is absent from \<open>columns\<close> is never read. A cell that may hold polars' null
  is an \<open>option\<close>; the keys (dates, timestamps, equipment ids) are not null. A calendar
  date is its proleptic Gregorian ordinal (1 is 0001-01-01), a number is a real: rounding
  is not modelled. Reading the database and the file, and printing, are outside the model:
  the functions take the tables already read.
\<close>

record 'r frame =
  columns :: "string list"
  rows :: "'r list"

record dated =
  date :: int

record production_record = dated +
  mine_id :: string
  shift :: string
  tons_extracted :: "real option"
  quality_grade :: "real option"

record daily_production = dated +
  total_production_daily :: real
  average_quality_grade :: "real option"

text \<open>
  A \<^verbatim>\<open>datetime\<close> is the ordinal of its date and the microseconds since midnight;
  \<^verbatim>\<open>datetime\<close>s compare by date first, \<^verbatim>\<open>dt.date()\<close> is \<open>day\<close>.
\<close>

record datetime =
  day :: int
  usec :: nat

definition datetime_less :: "datetime \<Rightarrow> datetime \<Rightarrow> bool" where
  "datetime_less a b = (day a < day b \<or> (day a = day b \<and> usec a < usec b))"

record sensor_reading =
  equipment_id :: string
  timestamp :: datetime
  status :: "string option"
  fuel_consumption :: "real option"

record iot_daily = dated +
  equipment_utilization :: real
  total_fuel_consumption :: real

record weather_observation = dated +
  mean_temperature :: "real option"
  total_precipitation :: "real option"

section \<open>Aggregations of polars\<close>

text \<open>
  \<^verbatim>\<open>sum()\<close> skips nulls and is 0 on no value; \<^verbatim>\<open>mean()\<close> skips nulls and is null on no
  value. Both run once over the column, carrying the sum (and the count).
\<close>

definition pl_sum :: "real option list \<Rightarrow> real" where
  "pl_sum xs = foldl (\<lambda>acc x. case x of None \<Rightarrow> acc | Some v \<Rightarrow> acc + v) 0 xs"

definition pl_mean :: "real option list \<Rightarrow> real option" where
  "pl_mean xs =
     (case foldl (\<lambda>(s, n) x. case x of None \<Rightarrow> (s, n) | Some v \<Rightarrow> (s + v, Suc n)) (0, 0) xs of
        (s, n) \<Rightarrow> if n = 0 then None else Some (s / real n))"

text \<open>
  \<^verbatim>\<open>pl.when(c >= 0).then(c).otherwise(0)\<close>: a null condition takes the \<^verbatim>\<open>otherwise\<close> branch.
\<close>

definition when_nonneg_otherwise_0 :: "real option \<Rightarrow> real option" where
  "when_nonneg_otherwise_0 c =
     (case c of None \<Rightarrow> Some 0 | Some v \<Rightarrow> if v \<ge> 0 then Some v else Some 0)"

text \<open>
  \<^verbatim>\<open>group_by(key)\<close>: one group per distinct key, holding the rows of that key in their
  order. polars promises no order of the groups; every use below sorts them by the key,
  and the keys of the groups are distinct.
\<close>

definition group_by :: "('r \<Rightarrow> 'k) \<Rightarrow> 'r list \<Rightarrow> ('k \<times> 'r list) list" where
  "group_by key rs = map (\<lambda>k. (k, filter (\<lambda>r. key r = k) rs)) (remdups (map key rs))"

section \<open>The production log: anomalies and daily totals\<close>

text \<open>
  \<^verbatim>\<open>get_anomaly_data\<close> checks for rows and for the column \<^verbatim>\<open>tons_extracted\<close>; the filter
  drops a row whose comparison is null; \<^verbatim>\<open>sort("date")\<close> is where polars raises when the
  frame has no column \<^verbatim>\<open>date\<close>.
\<close>

definition get_anomaly_data :: "production_record frame \<Rightarrow> error + production_record frame" where
  "get_anomaly_data sql_data =
     (if rows sql_data = [] then Inl (ValueError ''SQL data is empty'')
      else if ''tons_extracted'' \<notin> set (columns sql_data)
        then Inl (ValueError ''SQL data must contain 'tons_extracted' column'')
      else if ''date'' \<notin> set (columns sql_data) then Inl (ColumnNotFoundError ''date'')
      else Inr (sql_data\<lparr>rows :=
        sort_key date
          (filter (\<lambda>r. case tons_extracted r of None \<Rightarrow> False | Some v \<Rightarrow> v < 0)
             (rows sql_data))\<rparr>))"

definition transform_sql_data :: "production_record frame \<Rightarrow> error + daily_production list" where
  "transform_sql_data sql_data =
     (if rows sql_data = [] then Inl (ValueError ''SQL data is empty'')
      else if ''tons_extracted'' \<notin> set (columns sql_data)
        then Inl (ValueError ''SQL data must contain 'tons_extracted' column'')
      else if ''quality_grade'' \<notin> set (columns sql_data)
        then Inl (ValueError ''SQL data must contain 'quality_grade' column'')
      else if ''date'' \<notin> set (columns sql_data)
        then Inl (ValueError ''SQL data must contain 'date' column'')
      else Inr (sort_key date
        (map (\<lambda>(d, g).
            \<lparr>date = d,
             total_production_daily = pl_sum (map (when_nonneg_otherwise_0 \<circ> tons_extracted) g),
             average_quality_grade = pl_mean (map quality_grade g)\<rparr>)
          (group_by date (rows sql_data)))))"

section \<open>Telemetry and weather tables\<close>

text \<open>
  \<^verbatim>\<open>transform_iot_data\<close>: \<^verbatim>\<open>n_unique()\<close> counts the distinct equipment ids of the whole
  input; a reading counts as active when its status is the string \<^verbatim>\<open>active\<close> (a null status
  compares to null, which \<^verbatim>\<open>sum()\<close> skips); the count is divided as a float.
\<close>

definition transform_iot_data :: "sensor_reading list \<Rightarrow> error + iot_daily list" where
  "transform_iot_data iot_data =
     (if iot_data = [] then Inl (ValueError ''IoT data is empty'')
      else
        let total_equipment = length (remdups (map equipment_id iot_data))
        in Inr (sort_key date
          (map (\<lambda>(d, g).
              \<lparr>date = d,
               equipment_utilization =
                 real (length (filter (\<lambda>r. status r = Some ''active'') g))
                   / real (24 * total_equipment),
               total_fuel_consumption = pl_sum (map fuel_consumption g)\<rparr>)
            (group_by (\<lambda>r. day (timestamp r)) iot_data))))"

definition transform_weather_data ::
  "weather_observation list \<Rightarrow> error + weather_observation list" where
  "transform_weather_data weather_data =
     (if weather_data = [] then Inl (ValueError ''Weather data is empty'')
      else Inr (sort_key date weather_data))"

section \<open>Joining the daily tables\<close>

text \<open>
  \<^verbatim>\<open>join(right, on="date", how="left")\<close>: every left row, in its order, once per right row
  of the same date, and once with nulls when there is none. A joined row keeps the
  production row and the telemetry and weather rows it matched, \<open>None\<close> standing for the
  nulls in all of their columns.
\<close>

definition left_join ::
  "('l \<Rightarrow> 'k) \<Rightarrow> ('r \<Rightarrow> 'k) \<Rightarrow> 'l list \<Rightarrow> 'r list \<Rightarrow> ('l \<times> 'r option) list" where
  "left_join left_on right_on ls rs =
     concat (map (\<lambda>l.
        case filter (\<lambda>r. right_on r = left_on l) rs of
          [] \<Rightarrow> [(l, None)]
        | ms \<Rightarrow> map (\<lambda>r. (l, Some r)) ms) ls)"

text \<open>
  The quotient of two float columns: polars divides as IEEE 754 does, so a zero divisor
  gives an infinity or NaN and raises nothing. A finite quotient is the real one.
\<close>

datatype float64 = Finite real | PosInf | NegInf | NaN

definition truediv :: "real \<Rightarrow> real \<Rightarrow> float64" where
  "truediv a b =
     (if b \<noteq> 0 then Finite (a / b)
      else if a > 0 then PosInf else if a < 0 then NegInf else NaN)"

record metrics_row =
  production :: daily_production
  telemetry :: "iot_daily option"
  weather :: "weather_observation option"
  fuel_efficiency :: "float64 option"

text \<open>
  The two joins and the derived column of \<^verbatim>\<open>main\<close>; the quotient of a null is null.
\<close>

definition daily_production_metrics ::
  "daily_production list \<Rightarrow> iot_daily list \<Rightarrow> weather_observation list \<Rightarrow> metrics_row list" where
  "daily_production_metrics transformed_sql_data transformed_iot_data transformed_weather_data =
     map (\<lambda>((p, t), w).
        \<lparr>production = p, telemetry = t, weather = w,
         fuel_efficiency =
           (case t of None \<Rightarrow> None
            | Some t' \<Rightarrow> Some (truediv (total_fuel_consumption t') (total_production_daily p)))\<rparr>)
       (left_join (date \<circ> fst) date
          (left_join date date transformed_sql_data transformed_iot_data)
          transformed_weather_data)"

section \<open>Calendar dates\<close>

text \<open>
  \<^verbatim>\<open>datetime.strptime(s, "%Y-%m-%d")\<close> matches the year as \<^verbatim>\<open>\d\d\d\d\<close>, the month as
  \<^verbatim>\<open>1[0-2]|0[1-9]|[1-9]\<close> and the day as \<^verbatim>\<open>3[0-1]|[1-2]\d|0[1-9]|[1-9]| [1-9]\<close>, the first
  alternative that fits winning, refuses text left over after the day, and then builds
  the date, which refuses year 0 and a day the month does not have. The result is the
  ordinal of the date, as \<^verbatim>\<open>toordinal()\<close> counts it; its time of day is midnight.

  \<^verbatim>\<open>\d\<close> matches every decimal digit of Unicode, and \<^verbatim>\<open>int()\<close> reads it: the digits of a
  script are ten consecutive code points, and \<open>decimal_zeros\<close> lists the zero of each
  (Unicode 14). The classes written with brackets hold ASCII digits only.
\<close>

definition decimal_zeros :: "nat list" where
  "decimal_zeros =
     [48, 1632, 1776, 1984, 2406, 2534, 2662, 2790, 2918, 3046, 3174, 3302, 3430, 3558,
      3664, 3792, 3872, 4160, 4240, 6112, 6160, 6470, 6608, 6784, 6800, 6992, 7088, 7232,
      7248, 42528, 43216, 43264, 43472, 43504, 43600, 44016, 65296, 66720, 68912, 69734,
      69872, 69942, 70096, 70384, 70736, 70864, 71248, 71360, 71472, 71904, 72016, 72784,
      73040, 73120, 92768, 92864, 93008, 120782, 120792, 120802, 120812, 120822, 123200,
      123632, 125264, 130032]"

definition digit_value :: "nat \<Rightarrow> nat option" where
  "digit_value c =
     map_option (\<lambda>z. c - z) (find (\<lambda>z. z \<le> c \<and> c < z + 10) decimal_zeros)"

definition in_class :: "nat \<Rightarrow> char \<Rightarrow> char \<Rightarrow> bool" where
  "in_class c lo hi = (of_char lo \<le> c \<and> c \<le> of_char hi)"

definition ascii_value :: "nat \<Rightarrow> nat" where
  "ascii_value c = c - of_char CHR ''0''"

fun match_Y :: "str \<Rightarrow> (nat \<times> str) option" where
  "match_Y (a # b # c # d # rest) =
     (case (digit_value a, digit_value b, digit_value c, digit_value d) of
        (Some va, Some vb, Some vc, Some vd) \<Rightarrow>
          Some (1000 * va + 100 * vb + 10 * vc + vd, rest)
      | _ \<Rightarrow> None)"
| "match_Y _ = None"

fun match_m :: "str \<Rightarrow> (nat \<times> str) option" where
  "match_m (a # b # rest) =
     (if a = of_char CHR ''1'' \<and> in_class b CHR ''0'' CHR ''2''
        then Some (10 + ascii_value b, rest)
      else if a = of_char CHR ''0'' \<and> in_class b CHR ''1'' CHR ''9''
        then Some (ascii_value b, rest)
      else if in_class a CHR ''1'' CHR ''9'' then Some (ascii_value a, b # rest)
      else None)"
| "match_m [a] = (if in_class a CHR ''1'' CHR ''9'' then Some (ascii_value a, []) else None)"
| "match_m [] = None"

fun match_d :: "str \<Rightarrow> (nat \<times> str) option" where
  "match_d (a # b # rest) =
     (if a = of_char CHR ''3'' \<and> in_class b CHR ''0'' CHR ''1''
        then Some (30 + ascii_value b, rest)
      else case (if in_class a CHR ''1'' CHR ''2'' then digit_value b else None) of
          Some vb \<Rightarrow> Some (10 * ascii_value a + vb, rest)
        | None \<Rightarrow>
            if a = of_char CHR ''0'' \<and> in_class b CHR ''1'' CHR ''9''
              then Some (ascii_value b, rest)
            else if in_class a CHR ''1'' CHR ''9'' then Some (ascii_value a, b # rest)
            else if a = of_char CHR '' '' \<and> in_class b CHR ''1'' CHR ''9''
              then Some (ascii_value b, rest)
            else None)"
| "match_d [a] = (if in_class a CHR ''1'' CHR ''9'' then Some (ascii_value a, []) else None)"
| "match_d [] = None"

definition is_leap :: "nat \<Rightarrow> bool" where
  "is_leap y = (y mod 4 = 0 \<and> (y mod 100 \<noteq> 0 \<or> y mod 400 = 0))"

definition days_in_month :: "nat \<Rightarrow> nat \<Rightarrow> nat" where
  "days_in_month y m =
     (if m = 2 then (if is_leap y then 29 else 28)
      else if m = 4 \<or> m = 6 \<or> m = 9 \<or> m = 11 then 30 else 31)"

definition days_before_month :: "nat \<Rightarrow> nat \<Rightarrow> nat" where
  "days_before_month y m =
     [0, 31, 59, 90, 120, 151, 181, 212, 243, 273, 304, 334] ! (m - 1)
       + (if m > 2 \<and> is_leap y then 1 else 0)"

definition days_before_year :: "nat \<Rightarrow> nat" where
  "days_before_year y = (y - 1) * 365 + (y - 1) div 4 - (y - 1) div 100 + (y - 1) div 400"

definition toordinal :: "nat \<Rightarrow> nat \<Rightarrow> nat \<Rightarrow> int" where
  "toordinal y m d = int (days_before_year y + days_before_month y m + d)"

definition strptime :: "str \<Rightarrow> int option" where
  "strptime s =
     (case match_Y s of
        None \<Rightarrow> None
      | Some (y, s1) \<Rightarrow>
          (case s1 of
             [] \<Rightarrow> None
           | c1 # s2 \<Rightarrow>
               if c1 \<noteq> of_char CHR ''-'' then None
               else (case match_m s2 of
                  None \<Rightarrow> None
                | Some (m, s3) \<Rightarrow>
                    (case s3 of
                       [] \<Rightarrow> None
                     | c2 # s4 \<Rightarrow>
                         if c2 \<noteq> of_char CHR ''-'' then None
                         else (case match_d s4 of
                            None \<Rightarrow> None
                          | Some (d, s5) \<Rightarrow>
                              if s5 \<noteq> [] then None
                              else if 1 \<le> y \<and> d \<le> days_in_month y m
                                then Some (toordinal y m d)
                              else None)))))"

definition is_valid_date :: "str \<Rightarrow> bool" where
  "is_valid_date start_date = (strptime start_date \<noteq> None)"

text \<open>
  \<^verbatim>\<open>strftime("%Y-%m-%d")\<close>: the year, month and day of an ordinal, found as \<^verbatim>\<open>datetime\<close>
  finds them (400-, 100-, 4- and 1-year cycles, then the month from an estimate). The
  month and the day are written with two digits, the year with as many as it has, as the
  C library of Linux writes it: nothing pads a year below 1000.
\<close>

definition ord2ymd :: "int \<Rightarrow> nat \<times> nat \<times> nat" where
  "ord2ymd ordinal =
     (let n = nat (ordinal - 1);
          n400 = n div 146097; na = n mod 146097;
          n100 = na div 36524; nb = na mod 36524;
          n4 = nb div 1461; nc = nb mod 1461;
          n1 = nc div 365; nd = nc mod 365;
          year = n400 * 400 + 1 + n100 * 100 + n4 * 4 + n1
      in if n1 = 4 \<or> n100 = 4 then (year - 1, 12, 31)
         else
           let month = (nd + 50) div 32;
               preceding = days_before_month year month
           in if preceding > nd
              then (year, month - 1, nd - (preceding - days_in_month year (month - 1)) + 1)
              else (year, month, nd - preceding + 1))"

definition digit_char :: "nat \<Rightarrow> nat" where
  "digit_char n = of_char CHR ''0'' + n mod 10"

definition year_digits :: "nat \<Rightarrow> str" where
  "year_digits y =
     (if y < 10 then [digit_char y]
      else if y < 100 then [digit_char (y div 10), digit_char y]
      else if y < 1000 then [digit_char (y div 100), digit_char (y div 10), digit_char y]
      else [digit_char (y div 1000), digit_char (y div 100), digit_char (y div 10),
            digit_char y])"

definition strftime :: "int \<Rightarrow> str" where
  "strftime ordinal =
     (case ord2ymd ordinal of
        (y, m, d) \<Rightarrow>
          year_digits y
            @ [of_char CHR ''-'', digit_char (m div 10), digit_char m,
               of_char CHR ''-'', digit_char (d div 10), digit_char d])"

section \<open>Fetching the weather\<close>

text \<open>
  What \<^verbatim>\<open>requests.get\<close> returns: the status code and the object under \<^verbatim>\<open>daily\<close> of the JSON
  body, three parallel arrays. A request is the endpoint with the \<^verbatim>\<open>start_date\<close> and
  \<^verbatim>\<open>end_date\<close> parameters of its URL; the other parameters are constants. The network is a
  function from requests to responses.
\<close>

record daily =
  time :: "str list"
  temperature_2m_mean :: "real option list"
  precipitation_sum :: "real option list"

record response =
  status_code :: nat
  json_daily :: daily

text \<open>
  The \<^verbatim>\<open>+=\<close> of the three arrays of the forecast onto those of the archive.
\<close>

definition extend_daily :: "daily \<Rightarrow> daily \<Rightarrow> daily" where
  "extend_daily response response_forecast =
     \<lparr>time = time response @ time response_forecast,
      temperature_2m_mean = temperature_2m_mean response @ temperature_2m_mean response_forecast,
      precipitation_sum = precipitation_sum response @ precipitation_sum response_forecast\<rparr>"

text \<open>
  \<^verbatim>\<open>pl.from_dict\<close> refuses columns of unequal length. \<^verbatim>\<open>str.to_date()\<close> refuses the column
  of empty arrays, which has no type, and a string that is no date. Which strings polars
  reads as dates, with the format it infers, is the parameter \<open>to_date\<close>. The columns
  are renamed. The rows keep the order of the arrays: nothing is sorted here.
\<close>

definition from_dict :: "(str \<Rightarrow> int option) \<Rightarrow> daily \<Rightarrow> error + weather_observation list" where
  "from_dict to_date response =
     (if length (temperature_2m_mean response) \<noteq> length (time response)
         \<or> length (precipitation_sum response) \<noteq> length (time response)
      then Inl ShapeError
      else if time response = [] then Inl (SchemaError ''time'')
      else case those (map to_date (time response)) of
          None \<Rightarrow> Inl (ComputeError ''time'')
        | Some dates \<Rightarrow>
            Inr (map (\<lambda>(d, t, p). \<lparr>date = d, mean_temperature = t, total_precipitation = p\<rparr>)
                   (zip dates (zip (temperature_2m_mean response) (precipitation_sum response)))))"

text \<open>
  \<^verbatim>\<open>load_weather_data\<close>, given polars' \<open>to_date\<close>, the value of \<^verbatim>\<open>datetime.now()\<close> and the
  network. It returns
  the requests sent, in order, and the table or the exception. In the branch of two
  requests both are sent before either status is looked at. After \<open>is_valid_date\<close> both
  dates parse, so the last case of the \<open>case\<close> is never reached. The source's names that end
  in an underscore end in a prime here.
\<close>

definition load_weather_data ::
  "(str \<Rightarrow> int option) \<Rightarrow> datetime \<Rightarrow> (request \<Rightarrow> response) \<Rightarrow> str \<Rightarrow> str
     \<Rightarrow> request list \<times> (error + weather_observation list)" where
  "load_weather_data to_date now get start_date end_date =
     (if start_date = [] \<or> end_date = []
      then ([], Inl (ValueError ''Start date and end date must be provided''))
      else if \<not> is_valid_date start_date \<or> \<not> is_valid_date end_date
      then ([], Inl (ValueError ''Start date and end date must be in the format YYYY-MM-DD''))
      else case (strptime start_date, strptime end_date) of
          (Some s, Some e) \<Rightarrow>
            if s > e then ([], Inl (ValueError ''Start date must be before end date''))
            else if day now - 90 < 1 then ([], Inl OverflowError)
            else
              let start_date' = \<lparr>day = s, usec = 0\<rparr>;
                  end_date' = \<lparr>day = e, usec = 0\<rparr>;
                  split_date = now\<lparr>day := day now - 90\<rparr>;
                  split_date' = strftime (day split_date)
              in if datetime_less start_date' split_date \<and> \<not> datetime_less end_date' split_date
                 then
                   let api_path_archive = Archive start_date split_date';
                       api_path_forecast = Forecast split_date' end_date;
                       response_archive = get api_path_archive;
                       response_forecast = get api_path_forecast
                   in ([api_path_archive, api_path_forecast],
                       if status_code response_archive \<noteq> 200
                       then Inl (ConnectionError api_path_archive)
                       else if status_code response_forecast \<noteq> 200
                       then Inl (ConnectionError api_path_forecast)
                       else from_dict to_date (extend_daily (json_daily response_archive)
                                         (json_daily response_forecast)))
                 else if datetime_less start_date' split_date \<and> datetime_less end_date' split_date
                 then
                   let api_path_archive = Archive start_date end_date;
                       response_archive = get api_path_archive
                   in ([api_path_archive],
                       if status_code response_archive \<noteq> 200
                       then Inl (ConnectionError api_path_archive)
                       else from_dict to_date (json_daily response_archive))
                 else
                   let api_path_forecast = Forecast start_date end_date;
                       response_forecast = get api_path_forecast
                   in ([api_path_forecast],
                       if status_code response_forecast \<noteq> 200
                       then Inl (ConnectionError api_path_forecast)
                       else from_dict to_date (json_daily response_forecast))
        | _ \<Rightarrow> ([], Inl (ValueError ''Start date and end date must be in the format YYYY-MM-DD'')))"

text \<open>
  The days a request asks for: Open-Meteo serves every day from \<^verbatim>\<open>start_date\<close> to
  \<^verbatim>\<open>end_date\<close>, both included.
\<close>

fun requested_days :: "request \<Rightarrow> int list" where
  "requested_days (Archive a b) =
     (case (strptime a, strptime b) of (Some s, Some e) \<Rightarrow> [s..e] | _ \<Rightarrow> [])"
| "requested_days (Forecast a b) =
     (case (strptime a, strptime b) of (Some s, Some e) \<Rightarrow> [s..e] | _ \<Rightarrow> [])"

section \<open>Quantities of the clamping identity\<close>

text \<open>
  For a date: the sum of the absolute values of the anomaly rows of that date, and the
  sum of \<^verbatim>\<open>tons_extracted\<close> over the rows of that date with nothing clamped.
\<close>

definition anomaly_abs_sum :: "production_record list \<Rightarrow> int \<Rightarrow> real" where
  "anomaly_abs_sum anomaly d =
     (\<Sum>x\<leftarrow>filter (\<lambda>x. date x = d) anomaly.
        case tons_extracted x of None \<Rightarrow> 0 | Some t \<Rightarrow> \<bar>t\<bar>)"

definition naive_daily_sum :: "production_record list \<Rightarrow> int \<Rightarrow> real" where
  "naive_daily_sum rs d = pl_sum (map tons_extracted (filter (\<lambda>x. date x = d) rs))"

section \<open>Example inputs\<close>

text \<open>
  A production log of three shifts on two days (2024-01-01 is day 738886): one day with
  only a negative reading and a null grade, one with a good and a negative reading.
\<close>

definition ex_columns :: "string list" where
  "ex_columns = [''date'', ''mine_id'', ''shift'', ''tons_extracted'', ''quality_grade'']"

definition ex_log :: "production_record frame" where
  "ex_log = \<lparr>columns = ex_columns,
     rows =
       [\<lparr>date = 738887, mine_id = ''A'', shift = ''day'',
          tons_extracted = Some 10, quality_grade = Some 4\<rparr>,
        \<lparr>date = 738886, mine_id = ''A'', shift = ''day'',
          tons_extracted = Some (- 5), quality_grade = None\<rparr>,
        \<lparr>date = 738887, mine_id = ''B'', shift = ''night'',
          tons_extracted = Some (- 3), quality_grade = Some 2\<rparr>]\<rparr>"

definition ex_anomaly :: "production_record frame" where
  "ex_anomaly = \<lparr>columns = ex_columns,
     rows =
       [\<lparr>date = 738886, mine_id = ''A'', shift = ''day'',
          tons_extracted = Some (- 5), quality_grade = None\<rparr>,
        \<lparr>date = 738887, mine_id = ''B'', shift = ''night'',
          tons_extracted = Some (- 3), quality_grade = Some 2\<rparr>]\<rparr>"

text \<open>The same log read without the column \<^verbatim>\<open>quality_grade\<close>, and without \<^verbatim>\<open>tons_extracted\<close>.\<close>

definition ex_log_no_quality :: "production_record frame" where
  "ex_log_no_quality = ex_log\<lparr>columns := [''date'', ''mine_id'', ''shift'', ''tons_extracted'']\<rparr>"

definition ex_log_no_tons :: "production_record frame" where
  "ex_log_no_tons = ex_log\<lparr>columns := [''date'', ''mine_id'', ''shift'', ''quality_grade'']\<rparr>"

text \<open>
  Telemetry: two machines over two days, and one excavator that reports every half hour
  through a shift of thirteen hours. Daily tables in which only the first day has
  telemetry and weather, and the rows their join gives.
\<close>

definition ex_iot :: "sensor_reading list" where
  "ex_iot =
     [\<lparr>equipment_id = ''EX-1'', timestamp = \<lparr>day = 738886, usec = 0\<rparr>,
        status = Some ''active'', fuel_consumption = Some 2\<rparr>,
      \<lparr>equipment_id = ''EX-2'', timestamp = \<lparr>day = 738886, usec = 3600000000\<rparr>,
        status = Some ''idle'', fuel_consumption = Some 1\<rparr>,
      \<lparr>equipment_id = ''EX-1'', timestamp = \<lparr>day = 738887, usec = 0\<rparr>,
        status = Some ''active'', fuel_consumption = None\<rparr>]"

definition ex_iot_half_hourly :: "sensor_reading list" where
  "ex_iot_half_hourly =
     map (\<lambda>i. \<lparr>equipment_id = ''EX-1'', timestamp = \<lparr>day = 738886, usec = i * 1800000000\<rparr>,
               status = Some ''active'', fuel_consumption = Some 2\<rparr>) [0..<26]"

definition ex_daily :: "daily_production list" where
  "ex_daily =
     [\<lparr>date = 738886, total_production_daily = 0, average_quality_grade = None\<rparr>,
      \<lparr>date = 738887, total_production_daily = 10, average_quality_grade = Some 3\<rparr>]"

definition ex_iot_daily :: "iot_daily list" where
  "ex_iot_daily = [\<lparr>date = 738886, equipment_utilization = 1 / 2, total_fuel_consumption = 5\<rparr>]"

definition ex_weather :: "weather_observation list" where
  "ex_weather = [\<lparr>date = 738886, mean_temperature = Some 27, total_precipitation = Some 0\<rparr>]"

definition ex_metrics_row :: metrics_row where
  "ex_metrics_row =
     \<lparr>production = \<lparr>date = 738886, total_production_daily = 0, average_quality_grade = None\<rparr>,
      telemetry = Some \<lparr>date = 738886, equipment_utilization = 1 / 2, total_fuel_consumption = 5\<rparr>,
      weather = Some \<lparr>date = 738886, mean_temperature = Some 27, total_precipitation = Some 0\<rparr>,
      fuel_efficiency = Some PosInf\<rparr>"

definition ex_metrics_row_unmatched :: metrics_row where
  "ex_metrics_row_unmatched =
     \<lparr>production = \<lparr>date = 738887, total_production_daily = 10, average_quality_grade = Some 3\<rparr>,
      telemetry = None, weather = None, fuel_efficiency = None\<rparr>"

text \<open>
  The clock at 2024-04-24 09:30 (day 739000), so that the boundary is 2024-01-25 09:30;
  a network that answers every request with the days it asks for, in order; and one
  whose answer lists two days out of order. The dates of these answers are ISO dates,
  which polars reads as \<open>strptime\<close> does: the examples run with \<open>strptime\<close> as \<open>to_date\<close>.
\<close>

definition ex_now :: datetime where
  "ex_now = \<lparr>day = 739000, usec = 34200000000\<rparr>"

definition ex_web :: "request \<Rightarrow> response" where
  "ex_web r =
     \<lparr>status_code = 200,
      json_daily =
        \<lparr>time = map strftime (requested_days r),
         temperature_2m_mean = map (\<lambda>_. Some 27) (requested_days r),
         precipitation_sum = map (\<lambda>_. Some 0) (requested_days r)\<rparr>\<rparr>"

definition ex_web_unsorted :: "request \<Rightarrow> response" where
  "ex_web_unsorted r =
     \<lparr>status_code = 200,
      json_daily =
        \<lparr>time = [ascii ''2024-01-02'', ascii ''2024-01-01''],
         temperature_2m_mean = [Some 27, Some 26],
         precipitation_sum = [Some 0, None]\<rparr>\<rparr>"

text \<open>
  A log whose first day has two grades and a null one, and whose second day has only a
  null grade. Daily tables for the two days 2024-01-24 and 2024-01-25, and the weather
  table of a fetch in which the second of them is the day of the boundary.
\<close>

definition ex_log_grades :: "production_record frame" where
  "ex_log_grades = \<lparr>columns = ex_columns,
     rows =
       [\<lparr>date = 738886, mine_id = ''A'', shift = ''day'',
          tons_extracted = Some 1, quality_grade = Some 4\<rparr>,
        \<lparr>date = 738886, mine_id = ''A'', shift = ''night'',
          tons_extracted = Some 1, quality_grade = None\<rparr>,
        \<lparr>date = 738886, mine_id = ''B'', shift = ''day'',
          tons_extracted = Some 1, quality_grade = Some 2\<rparr>,
        \<lparr>date = 738887, mine_id = ''A'', shift = ''day'',
          tons_extracted = Some 1, quality_grade = None\<rparr>]\<rparr>"




section \<open>Facts about the aggregations\<close>

lemma pl_sum_acc:
  "foldl (\<lambda>acc x. case x of None \<Rightarrow> acc | Some v \<Rightarrow> acc + v) a xs
     = a + sum_list (map (\<lambda>x. case x of None \<Rightarrow> 0 | Some v \<Rightarrow> v) xs)"
  by (induction xs arbitrary: a) (auto split: option.splits simp: add.assoc)

lemma pl_sum_sum_list:
  "pl_sum xs = sum_list (map (\<lambda>x. case x of None \<Rightarrow> 0 | Some v \<Rightarrow> v) xs)"
  by (simp add: pl_sum_def pl_sum_acc)

lemma pl_mean_acc:
  "foldl (\<lambda>(s, n) x. case x of None \<Rightarrow> (s, n) | Some v \<Rightarrow> (s + v, Suc n)) (a, k) xs
     = (a + sum_list (List.map_filter id xs), k + length (List.map_filter id xs))"
  by (induction xs arbitrary: a k) (auto simp: add.assoc split: option.splits)

lemma pl_mean_arith:
  "pl_mean xs = (if List.map_filter id xs = [] then None
      else Some (sum_list (List.map_filter id xs) / real (length (List.map_filter id xs))))"
  by (simp add: pl_mean_def pl_mean_acc)

lemma map_filter_id_map: "List.map_filter id (map f xs) = List.map_filter f xs"
  by (induction xs) (auto split: option.splits)

lemma distinct_map_sort_key: "distinct (map f (sort_key f xs)) = distinct (map f xs)"
  using mset_eq_imp_distinct_iff[of "map f (sort_key f xs)" "map f xs"]
  by simp

lemma sum_list_filter_sort_key:
  "(\<Sum>x\<leftarrow>filter P (sort_key k xs). f x) = (\<Sum>x\<leftarrow>filter P xs. (f x :: real))"
proof -
  have "mset (map f (filter P (sort_key k xs))) = mset (map f (filter P xs))"
    by (simp add: mset_filter)
  then show ?thesis by (metis sum_mset_sum_list)
qed

section \<open>The daily production table\<close>

lemma transform_sql_data_ok:
  assumes "rows sql_data \<noteq> []" and "''date'' \<in> set (columns sql_data)"
    and "''tons_extracted'' \<in> set (columns sql_data)"
    and "''quality_grade'' \<in> set (columns sql_data)"
  shows "\<exists>out. transform_sql_data sql_data = Inr out"
  using assms by (simp add: transform_sql_data_def)

lemma transform_sql_data_dates:
  assumes "transform_sql_data sql_data = Inr out"
  shows "sorted (map date out)" and "distinct (map date out)"
    and "set (map date out) = date ` set (rows sql_data)"
proof -
  let ?mk = "\<lambda>(d, g).
      \<lparr>date = d,
       total_production_daily = pl_sum (map (when_nonneg_otherwise_0 \<circ> tons_extracted) g),
       average_quality_grade = pl_mean (map quality_grade g)\<rparr>"
  have out: "out = sort_key date (map ?mk (group_by date (rows sql_data)))"
    using assms by (simp add: transform_sql_data_def split: if_splits)
  have keys: "map date (map ?mk (group_by date (rows sql_data)))
      = remdups (map date (rows sql_data))"
    by (simp add: group_by_def comp_def)
  show "sorted (map date out)" unfolding out by (rule sorted_sort_key)
  show "distinct (map date out)" unfolding out distinct_map_sort_key keys by simp
  have "set (map date out) = set (map date (map ?mk (group_by date (rows sql_data))))"
    unfolding out by (simp del: map_map)
  then show "set (map date out) = date ` set (rows sql_data)"
    unfolding keys by simp
qed

lemma transform_sql_data_row:
  assumes "transform_sql_data sql_data = Inr out" and "r \<in> set out"
  shows "total_production_daily r
      = pl_sum (map (when_nonneg_otherwise_0 \<circ> tons_extracted)
          (filter (\<lambda>x. date x = date r) (rows sql_data)))"
    and "average_quality_grade r
      = pl_mean (map quality_grade (filter (\<lambda>x. date x = date r) (rows sql_data)))"
  using assms by (auto simp: transform_sql_data_def group_by_def split: if_splits)

lemma clamped_sum:
  "pl_sum (map (when_nonneg_otherwise_0 \<circ> tons_extracted) g)
     = (\<Sum>x\<leftarrow>g. case tons_extracted x of None \<Rightarrow> 0 | Some t \<Rightarrow> max t 0)"
  unfolding pl_sum_sum_list map_map
  by (rule arg_cong[where f = sum_list], rule map_cong)
     (auto simp: when_nonneg_otherwise_0_def split: option.splits)

lemma transform_sql_data_total:
  assumes "transform_sql_data sql_data = Inr out" and "r \<in> set out"
  shows "total_production_daily r
      = (\<Sum>x\<leftarrow>filter (\<lambda>x. date x = date r) (rows sql_data).
            case tons_extracted x of None \<Rightarrow> 0 | Some t \<Rightarrow> max t 0)"
  using transform_sql_data_row(1)[OF assms] by (simp only: clamped_sum)

lemma ex_log_daily:
  "transform_sql_data ex_log
     = Inr [\<lparr>date = 738886, total_production_daily = 0, average_quality_grade = None\<rparr>,
            \<lparr>date = 738887, total_production_daily = 10, average_quality_grade = Some 3\<rparr>]"
  by (simp add: transform_sql_data_def ex_log_def ex_columns_def group_by_def pl_sum_def
      pl_mean_def when_nonneg_otherwise_0_def)

text \<open>
  C2. On a log that has rows and the three required columns the aggregator returns a
  table: its dates ascend, no date is repeated, they are exactly the dates of the log,
  and the total of a date is the sum over the rows of that date of
  \<open>max tons_extracted 0\<close> (a null reading adding nothing). So a date whose readings are
  all negative is in the table, with total 0.
\<close>

theorem transform_sql_data_daily_totals:
  assumes "rows sql_data \<noteq> []" and "''date'' \<in> set (columns sql_data)"
    and "''tons_extracted'' \<in> set (columns sql_data)"
    and "''quality_grade'' \<in> set (columns sql_data)"
  shows "\<exists>out. transform_sql_data sql_data = Inr out
    \<and> sorted (map date out) \<and> distinct (map date out)
    \<and> set (map date out) = date ` set (rows sql_data)
    \<and> (\<forall>r\<in>set out. total_production_daily r =
          (\<Sum>x\<leftarrow>filter (\<lambda>x. date x = date r) (rows sql_data).
              case tons_extracted x of None \<Rightarrow> 0 | Some t \<Rightarrow> max t 0))
    \<and> (\<forall>r\<in>set out.
          (\<forall>x\<in>set (rows sql_data). date x = date r \<longrightarrow> (\<exists>t<0. tons_extracted x = Some t))
            \<longrightarrow> total_production_daily r = 0)"
proof -
  obtain out where out: "transform_sql_data sql_data = Inr out"
    using transform_sql_data_ok[OF assms] by blast
  have zero: "total_production_daily r = 0"
    if r: "r \<in> set out"
      and neg: "\<forall>x\<in>set (rows sql_data). date x = date r \<longrightarrow> (\<exists>t<0. tons_extracted x = Some t)"
    for r
  proof -
    have "(\<Sum>x\<leftarrow>filter (\<lambda>x. date x = date r) (rows sql_data).
              case tons_extracted x of None \<Rightarrow> 0 | Some t \<Rightarrow> max t 0)
        = (\<Sum>x\<leftarrow>filter (\<lambda>x. date x = date r) (rows sql_data). 0::real)"
      by (rule arg_cong[where f = sum_list], rule map_cong) (use neg in auto)
    then show ?thesis using transform_sql_data_total[OF out r] by simp
  qed
  show ?thesis
    using out transform_sql_data_dates[OF out] transform_sql_data_total[OF out] zero by blast
qed

theorem transform_sql_data_daily_totals_witness:
  "rows ex_log \<noteq> [] \<and> ''date'' \<in> set (columns ex_log)
    \<and> ''tons_extracted'' \<in> set (columns ex_log) \<and> ''quality_grade'' \<in> set (columns ex_log)
    \<and> (\<exists>out. transform_sql_data ex_log = Inr out
      \<and> sorted (map date out) \<and> distinct (map date out)
      \<and> set (map date out) = date ` set (rows ex_log)
      \<and> (\<forall>r\<in>set out. total_production_daily r =
            (\<Sum>x\<leftarrow>filter (\<lambda>x. date x = date r) (rows ex_log).
                case tons_extracted x of None \<Rightarrow> 0 | Some t \<Rightarrow> max t 0))
      \<and> (\<forall>r\<in>set out.
            (\<forall>x\<in>set (rows ex_log). date x = date r \<longrightarrow> (\<exists>t<0. tons_extracted x = Some t))
              \<longrightarrow> total_production_daily r = 0))"
proof -
  have h: "rows ex_log \<noteq> []" "''date'' \<in> set (columns ex_log)"
    "''tons_extracted'' \<in> set (columns ex_log)" "''quality_grade'' \<in> set (columns ex_log)"
    by (simp_all add: ex_log_def ex_columns_def)
  from transform_sql_data_daily_totals[OF h] h show ?thesis by blast
qed

lemma ex_log_grades_daily:
  "transform_sql_data ex_log_grades
     = Inr [\<lparr>date = 738886, total_production_daily = 3, average_quality_grade = Some 3\<rparr>,
            \<lparr>date = 738887, total_production_daily = 1, average_quality_grade = None\<rparr>]"
  by (simp add: transform_sql_data_def ex_log_grades_def ex_columns_def group_by_def pl_sum_def
      pl_mean_def when_nonneg_otherwise_0_def)

text \<open>
  C7. On a checked log every date of the log has its row in the table, one row only, and
  the average grade in it is the arithmetic mean of the grades of that date that are not
  null: nulls are in neither the sum nor the count. When every grade of the date is null
  the average is null. The table has no row for another date.
\<close>

theorem average_quality_grade_mean:
  assumes "rows sql_data \<noteq> []" and "''date'' \<in> set (columns sql_data)"
    and "''tons_extracted'' \<in> set (columns sql_data)"
    and "''quality_grade'' \<in> set (columns sql_data)"
  shows "\<exists>out. transform_sql_data sql_data = Inr out
    \<and> distinct (map date out)
    \<and> (\<forall>d\<in>date ` set (rows sql_data). \<exists>r\<in>set out. date r = d \<and>
          (\<exists>qs. qs = List.map_filter quality_grade (filter (\<lambda>x. date x = d) (rows sql_data))
            \<and> average_quality_grade r
              = (if qs = [] then None else Some (sum_list qs / real (length qs)))))
    \<and> (\<forall>r\<in>set out. date r \<in> date ` set (rows sql_data) \<and>
          (\<exists>qs. qs = List.map_filter quality_grade
                       (filter (\<lambda>x. date x = date r) (rows sql_data))
            \<and> average_quality_grade r
              = (if qs = [] then None else Some (sum_list qs / real (length qs)))))"
proof -
  obtain out where out: "transform_sql_data sql_data = Inr out"
    using transform_sql_data_ok[OF assms] by blast
  have dates: "date ` set out = date ` set (rows sql_data)"
    using transform_sql_data_dates(3)[OF out] by simp
  have avg: "average_quality_grade r
      = (if List.map_filter quality_grade (filter (\<lambda>x. date x = date r) (rows sql_data)) = []
         then None
         else Some (sum_list (List.map_filter quality_grade
                      (filter (\<lambda>x. date x = date r) (rows sql_data)))
                / real (length (List.map_filter quality_grade
                      (filter (\<lambda>x. date x = date r) (rows sql_data))))))"
    if "r \<in> set out" for r
    using transform_sql_data_row(2)[OF out that] by (simp add: pl_mean_arith map_filter_id_map)
  have each: "\<exists>r\<in>set out. date r = d \<and>
          (\<exists>qs. qs = List.map_filter quality_grade (filter (\<lambda>x. date x = d) (rows sql_data))
            \<and> average_quality_grade r
              = (if qs = [] then None else Some (sum_list qs / real (length qs))))"
    if "d \<in> date ` set (rows sql_data)" for d
  proof -
    from that dates have "d \<in> date ` set out"
      by simp
    then obtain r where r: "r \<in> set out" "date r = d"
      by auto
    with avg[OF r(1)] show ?thesis by auto
  qed
  have rows: "date r \<in> date ` set (rows sql_data) \<and>
          (\<exists>qs. qs = List.map_filter quality_grade
                       (filter (\<lambda>x. date x = date r) (rows sql_data))
            \<and> average_quality_grade r
              = (if qs = [] then None else Some (sum_list qs / real (length qs))))"
    if "r \<in> set out" for r
    using that dates avg[OF that] by auto
  from out transform_sql_data_dates(2)[OF out] each rows show ?thesis by blast
qed

text \<open>
  On the example the first day has the grades 4, null and 2, and its average is 3, not
  the 2 that a null counted as zero would give; the second day has no grade.
\<close>

theorem average_quality_grade_mean_witness:
  "rows ex_log_grades \<noteq> [] \<and> ''date'' \<in> set (columns ex_log_grades)
    \<and> ''tons_extracted'' \<in> set (columns ex_log_grades)
    \<and> ''quality_grade'' \<in> set (columns ex_log_grades)
    \<and> transform_sql_data ex_log_grades
        = Inr [\<lparr>date = 738886, total_production_daily = 3, average_quality_grade = Some 3\<rparr>,
               \<lparr>date = 738887, total_production_daily = 1, average_quality_grade = None\<rparr>]
    \<and> (\<exists>out. transform_sql_data ex_log_grades = Inr out
      \<and> distinct (map date out)
      \<and> (\<forall>d\<in>date ` set (rows ex_log_grades). \<exists>r\<in>set out. date r = d \<and>
            (\<exists>qs. qs = List.map_filter quality_grade
                         (filter (\<lambda>x. date x = d) (rows ex_log_grades))
              \<and> average_quality_grade r
                = (if qs = [] then None else Some (sum_list qs / real (length qs)))))
      \<and> (\<forall>r\<in>set out. date r \<in> date ` set (rows ex_log_grades) \<and>
            (\<exists>qs. qs = List.map_filter quality_grade
                         (filter (\<lambda>x. date x = date r) (rows ex_log_grades))
              \<and> average_quality_grade r
                = (if qs = [] then None else Some (sum_list qs / real (length qs))))))"
proof -
  have h: "rows ex_log_grades \<noteq> []" "''date'' \<in> set (columns ex_log_grades)"
    "''tons_extracted'' \<in> set (columns ex_log_grades)"
    "''quality_grade'' \<in> set (columns ex_log_grades)"
    by (simp_all add: ex_log_grades_def ex_columns_def)
  from average_quality_grade_mean[OF h] h ex_log_grades_daily show ?thesis by blast
qed

section \<open>The anomaly table\<close>

lemma get_anomaly_data_ok:
  assumes "rows sql_data \<noteq> []" and "''date'' \<in> set (columns sql_data)"
    and "''tons_extracted'' \<in> set (columns sql_data)"
  shows "get_anomaly_data sql_data = Inr (sql_data\<lparr>rows :=
        sort_key date
          (filter (\<lambda>r. case tons_extracted r of None \<Rightarrow> False | Some v \<Rightarrow> v < 0)
             (rows sql_data))\<rparr>)"
  using assms by (simp add: get_anomaly_data_def)

lemma ex_log_anomaly: "get_anomaly_data ex_log = Inr ex_anomaly"
  by (simp add: get_anomaly_data_def ex_log_def ex_anomaly_def ex_columns_def)

lemma clamping_sums:
  "(\<Sum>x\<leftarrow>filter (\<lambda>r. case tons_extracted r of None \<Rightarrow> False | Some v \<Rightarrow> v < 0) g.
        case tons_extracted x of None \<Rightarrow> 0 | Some t \<Rightarrow> \<bar>t\<bar>)
   = (\<Sum>x\<leftarrow>g. case tons_extracted x of None \<Rightarrow> 0 | Some t \<Rightarrow> max t 0)
     - (\<Sum>x\<leftarrow>g. case tons_extracted x of None \<Rightarrow> 0 | Some t \<Rightarrow> (t::real))"
  by (induction g) (auto split: option.splits)

text \<open>
  C3, as the code has it. On a checked log, for every date of the log, the absolute values
  of the anomaly rows of that date add up to the daily total minus the unclamped sum of
  the date: the clamped total is the larger of the two, so the difference is taken that
  way round.
\<close>

theorem clamping_identity:
  assumes "rows sql_data \<noteq> []" and "''date'' \<in> set (columns sql_data)"
    and "''tons_extracted'' \<in> set (columns sql_data)"
    and "''quality_grade'' \<in> set (columns sql_data)"
  shows "\<exists>anomaly out. get_anomaly_data sql_data = Inr anomaly
    \<and> transform_sql_data sql_data = Inr out
    \<and> (\<forall>d\<in>date ` set (rows sql_data). \<exists>r\<in>set out. date r = d \<and>
          anomaly_abs_sum (rows anomaly) d
            = total_production_daily r - naive_daily_sum (rows sql_data) d)"
proof -
  let ?neg = "\<lambda>r. case tons_extracted r of None \<Rightarrow> False | Some v \<Rightarrow> v < (0::real)"
  obtain out where out: "transform_sql_data sql_data = Inr out"
    using transform_sql_data_ok[OF assms] by blast
  define anomaly where "anomaly = sql_data\<lparr>rows := sort_key date (filter ?neg (rows sql_data))\<rparr>"
  have an: "get_anomaly_data sql_data = Inr anomaly"
    unfolding anomaly_def using assms(1-3) by (rule get_anomaly_data_ok)
  have ident: "anomaly_abs_sum (rows anomaly) (date r)
            = total_production_daily r - naive_daily_sum (rows sql_data) (date r)"
    if r: "r \<in> set out" for r
  proof -
    let ?g = "filter (\<lambda>x. date x = date r) (rows sql_data)"
    have "anomaly_abs_sum (rows anomaly) (date r)
        = (\<Sum>x\<leftarrow>filter ?neg ?g. case tons_extracted x of None \<Rightarrow> 0 | Some t \<Rightarrow> \<bar>t\<bar>)"
      by (simp add: anomaly_abs_sum_def anomaly_def sum_list_filter_sort_key conj_commute)
    moreover have "naive_daily_sum (rows sql_data) (date r)
        = (\<Sum>x\<leftarrow>?g. case tons_extracted x of None \<Rightarrow> 0 | Some t \<Rightarrow> t)"
      by (simp add: naive_daily_sum_def pl_sum_sum_list comp_def)
    ultimately show ?thesis
      using clamping_sums[of ?g] transform_sql_data_total[OF out r] by simp
  qed
  have "\<exists>r\<in>set out. date r = d \<and> anomaly_abs_sum (rows anomaly) d
            = total_production_daily r - naive_daily_sum (rows sql_data) d"
    if "d \<in> date ` set (rows sql_data)" for d
  proof -
    from that transform_sql_data_dates(3)[OF out] have "d \<in> date ` set out"
      by simp
    then obtain r where "r \<in> set out" "date r = d"
      by auto
    with ident show ?thesis by blast
  qed
  with an out show ?thesis by blast
qed

theorem clamping_identity_witness:
  "rows ex_log \<noteq> [] \<and> ''date'' \<in> set (columns ex_log)
    \<and> ''tons_extracted'' \<in> set (columns ex_log) \<and> ''quality_grade'' \<in> set (columns ex_log)
    \<and> (\<exists>anomaly out. get_anomaly_data ex_log = Inr anomaly
      \<and> transform_sql_data ex_log = Inr out
      \<and> (\<forall>d\<in>date ` set (rows ex_log). \<exists>r\<in>set out. date r = d \<and>
            anomaly_abs_sum (rows anomaly) d
              = total_production_daily r - naive_daily_sum (rows ex_log) d))"
proof -
  have h: "rows ex_log \<noteq> []" "''date'' \<in> set (columns ex_log)"
    "''tons_extracted'' \<in> set (columns ex_log)" "''quality_grade'' \<in> set (columns ex_log)"
    by (simp_all add: ex_log_def ex_columns_def)
  from clamping_identity[OF h] h show ?thesis by blast
qed

text \<open>
  The identity as the specification words it fails on the example log: on day 738887
  the readings are 10 and -3, the anomaly rows add up to 3, the unclamped sum is 7 and
  the daily total is 10, and 7 - 10 is -3.
\<close>

theorem clamping_identity_counterexample:
  "get_anomaly_data ex_log = Inr ex_anomaly
   \<and> transform_sql_data ex_log
       = Inr [\<lparr>date = 738886, total_production_daily = 0, average_quality_grade = None\<rparr>,
              \<lparr>date = 738887, total_production_daily = 10, average_quality_grade = Some 3\<rparr>]
   \<and> anomaly_abs_sum (rows ex_anomaly) 738887 = 3
   \<and> naive_daily_sum (rows ex_log) 738887 = 7
   \<and> anomaly_abs_sum (rows ex_anomaly) 738887 \<noteq> naive_daily_sum (rows ex_log) 738887 - 10"
proof -
  have a: "anomaly_abs_sum (rows ex_anomaly) 738887 = 3"
    by (simp add: anomaly_abs_sum_def ex_anomaly_def)
  have n: "naive_daily_sum (rows ex_log) 738887 = 7"
    by (simp add: naive_daily_sum_def ex_log_def pl_sum_def)
  show ?thesis using ex_log_anomaly ex_log_daily a n by simp
qed

text \<open>
  C8, as the code has it. The anomaly extractor raises its own \<^verbatim>\<open>ValueError\<close> exactly on a
  log with no rows or without the column \<^verbatim>\<open>tons_extracted\<close>; the aggregator raises exactly
  on a log with no rows or without one of \<^verbatim>\<open>tons_extracted\<close>, \<^verbatim>\<open>quality_grade\<close> and \<^verbatim>\<open>date\<close>.
  Whenever the aggregator returns, the extractor returns too.
\<close>

theorem anomaly_and_aggregator_errors:
  "((\<exists>m. get_anomaly_data sql_data = Inl (ValueError m))
      \<longleftrightarrow> rows sql_data = [] \<or> ''tons_extracted'' \<notin> set (columns sql_data))
   \<and> (isl (transform_sql_data sql_data)
      \<longleftrightarrow> rows sql_data = [] \<or> ''tons_extracted'' \<notin> set (columns sql_data)
          \<or> ''quality_grade'' \<notin> set (columns sql_data) \<or> ''date'' \<notin> set (columns sql_data))
   \<and> (isl (get_anomaly_data sql_data) \<longrightarrow> isl (transform_sql_data sql_data))"
  by (simp add: get_anomaly_data_def transform_sql_data_def)

theorem anomaly_and_aggregator_errors_witness:
  "(\<exists>m. get_anomaly_data ex_log_no_tons = Inl (ValueError m))
   \<and> isl (get_anomaly_data ex_log_no_tons) \<and> isl (transform_sql_data ex_log_no_tons)"
  using anomaly_and_aggregator_errors[of ex_log_no_tons]
  by (simp add: ex_log_no_tons_def ex_log_def get_anomaly_data_def)

text \<open>
  The two do not fail on the same logs: without the column \<^verbatim>\<open>quality_grade\<close> the extractor
  returns the anomaly rows and the aggregator raises.
\<close>

theorem anomaly_same_errors_counterexample:
  "get_anomaly_data ex_log_no_quality
     = Inr (ex_anomaly\<lparr>columns := [''date'', ''mine_id'', ''shift'', ''tons_extracted'']\<rparr>)
   \<and> transform_sql_data ex_log_no_quality
     = Inl (ValueError ''SQL data must contain 'quality_grade' column'')"
  by (simp add: get_anomaly_data_def transform_sql_data_def ex_log_no_quality_def ex_log_def
      ex_anomaly_def)

section \<open>The telemetry table\<close>

lemma transform_iot_data_row:
  assumes "transform_iot_data iot_data = Inr out" and "r \<in> set out"
  shows "equipment_utilization r
      = real (length (filter (\<lambda>x. day (timestamp x) = date r \<and> status x = Some ''active'') iot_data))
          / real (24 * card (equipment_id ` set iot_data))"
  using assms
  by (auto simp: transform_iot_data_def group_by_def Let_def length_remdups_card_conv conj_commute
      split: if_splits)

text \<open>
  C9, as the code has it. On readings that are not empty every utilization of the table
  is the number of active readings of the date over 24 times the number of distinct
  equipment ids of the whole input. It is never negative; it is at most 1 when the date
  has at most that many active readings, which nothing in the code ensures.
\<close>

theorem equipment_utilization_ratio:
  assumes "iot_data \<noteq> []"
  shows "\<exists>out. transform_iot_data iot_data = Inr out
    \<and> (\<forall>r\<in>set out. \<exists>active.
          active = length (filter (\<lambda>x. day (timestamp x) = date r \<and> status x = Some ''active'') iot_data)
          \<and> equipment_utilization r = real active / real (24 * card (equipment_id ` set iot_data))
          \<and> 0 \<le> equipment_utilization r
          \<and> (active \<le> 24 * card (equipment_id ` set iot_data) \<longrightarrow> equipment_utilization r \<le> 1))"
proof -
  obtain out where out: "transform_iot_data iot_data = Inr out"
    using assms by (simp add: transform_iot_data_def)
  have pos: "0 < card (equipment_id ` set iot_data)"
    using assms by (simp add: card_gt_0_iff)
  show ?thesis
    using out transform_iot_data_row[OF out] pos by (auto simp: divide_le_eq_1)
qed

theorem equipment_utilization_ratio_witness:
  "ex_iot \<noteq> [] \<and> (\<exists>out. transform_iot_data ex_iot = Inr out
    \<and> (\<forall>r\<in>set out. \<exists>active.
          active = length (filter (\<lambda>x. day (timestamp x) = date r \<and> status x = Some ''active'') ex_iot)
          \<and> equipment_utilization r = real active / real (24 * card (equipment_id ` set ex_iot))
          \<and> 0 \<le> equipment_utilization r
          \<and> (active \<le> 24 * card (equipment_id ` set ex_iot) \<longrightarrow> equipment_utilization r \<le> 1)))"
proof -
  have h: "ex_iot \<noteq> []" by (simp add: ex_iot_def)
  from equipment_utilization_ratio[OF h] h show ?thesis by blast
qed

text \<open>
  One machine, active in each of 26 half-hourly readings of a day: utilization 26/24.
\<close>

theorem equipment_utilization_counterexample:
  "transform_iot_data ex_iot_half_hourly
     = Inr [\<lparr>date = 738886, equipment_utilization = 13 / 12, total_fuel_consumption = 52\<rparr>]
   \<and> \<not> (13 / 12 \<le> (1::real))"
  by (simp add: transform_iot_data_def ex_iot_half_hourly_def group_by_def pl_sum_def
      upt_rec[of _ "numeral _"] upt_rec[of _ "Suc _"])

section \<open>The joined table\<close>



lemma left_join_None:
  "(l, None) \<in> set (left_join left_on right_on ls rs)
     \<longleftrightarrow> l \<in> set ls \<and> left_on l \<notin> right_on ` set rs"
proof -
  have "(l, None) \<in> set (case filter (\<lambda>r. right_on r = left_on l') rs of
          [] \<Rightarrow> [(l', None)]
        | ms \<Rightarrow> map (\<lambda>r. (l', Some r)) ms)
      \<longleftrightarrow> l = l' \<and> left_on l \<notin> right_on ` set rs" for l'
  proof (cases "filter (\<lambda>r. right_on r = left_on l') rs")
    case Nil
    then show ?thesis by (force simp: filter_empty_conv)
  next
    case (Cons a ms)
    then have "a \<in> set (filter (\<lambda>r. right_on r = left_on l') rs)"
      by simp
    then have "left_on l' \<in> right_on ` set rs"
      by force
    with Cons show ?thesis by auto
  qed
  then show ?thesis by (auto simp: left_join_def)
qed

lemma left_join_Some:
  "(l, Some r) \<in> set (left_join left_on right_on ls rs)
     \<longleftrightarrow> l \<in> set ls \<and> r \<in> set rs \<and> right_on r = left_on l"
proof -
  have "(l, Some r) \<in> set (case filter (\<lambda>r. right_on r = left_on l') rs of
          [] \<Rightarrow> [(l', None)]
        | ms \<Rightarrow> map (\<lambda>r. (l', Some r)) ms)
      \<longleftrightarrow> l = l' \<and> r \<in> set rs \<and> right_on r = left_on l" for l'
  proof (cases "filter (\<lambda>r. right_on r = left_on l') rs")
    case Nil
    then show ?thesis by (auto simp: filter_empty_conv)
  next
    case (Cons a ms)
    then have "set (a # ms) = {r \<in> set rs. right_on r = left_on l'}"
      by (metis set_filter)
    with Cons show ?thesis by auto
  qed
  then show ?thesis by (auto simp: left_join_def)
qed

lemma daily_production_metrics_rows:
  assumes "m \<in> set (daily_production_metrics tsql tiot tw)"
  shows "production m \<in> set tsql"
    and "telemetry m = None \<longleftrightarrow> date (production m) \<notin> date ` set tiot"
    and "weather m = None \<longleftrightarrow> date (production m) \<notin> date ` set tw"
    and "telemetry m = Some t' \<Longrightarrow> t' \<in> set tiot \<and> date t' = date (production m)"
    and "weather m = Some w' \<Longrightarrow> w' \<in> set tw \<and> date w' = date (production m)"
    and "fuel_efficiency m = (case telemetry m of None \<Rightarrow> None
            | Some t \<Rightarrow> Some (truediv (total_fuel_consumption t) (total_production_daily (production m))))"
proof -
  from assms obtain p t w where
    m: "m = \<lparr>production = p, telemetry = t, weather = w,
         fuel_efficiency = (case t of None \<Rightarrow> None
            | Some t' \<Rightarrow> Some (truediv (total_fuel_consumption t') (total_production_daily p)))\<rparr>"
    and w: "((p, t), w) \<in> set (left_join (date \<circ> fst) date (left_join date date tsql tiot) tw)"
    by (auto simp: daily_production_metrics_def)
  have pt: "(p, t) \<in> set (left_join date date tsql tiot)"
    using w by (cases w) (auto simp: left_join_None left_join_Some)
  show "production m \<in> set tsql"
    using pt m by (cases t) (auto simp: left_join_None left_join_Some)
  show "telemetry m = None \<longleftrightarrow> date (production m) \<notin> date ` set tiot"
    using pt m by (cases t) (force simp: left_join_None left_join_Some)+
  show "weather m = None \<longleftrightarrow> date (production m) \<notin> date ` set tw"
    using w m by (cases w) (force simp: left_join_None left_join_Some)+
  show "telemetry m = Some t' \<Longrightarrow> t' \<in> set tiot \<and> date t' = date (production m)"
    using pt m by (auto simp: left_join_Some)
  show "weather m = Some w' \<Longrightarrow> w' \<in> set tw \<and> date w' = date (production m)"
    using w m by (auto simp: left_join_Some)
  show "fuel_efficiency m = (case telemetry m of None \<Rightarrow> None
            | Some t \<Rightarrow> Some (truediv (total_fuel_consumption t) (total_production_daily (production m))))"
    using m by (cases t) simp_all
qed


lemma ex_metrics:
  "daily_production_metrics ex_daily ex_iot_daily ex_weather = [ex_metrics_row, ex_metrics_row_unmatched]"
  by (simp add: daily_production_metrics_def left_join_def ex_daily_def ex_iot_daily_def
      ex_weather_def ex_metrics_row_def ex_metrics_row_unmatched_def truediv_def)











text \<open>
  C4. In every row of the joined table the fuel efficiency is the quotient of the fuel
  by the production of the row (null when the row has no telemetry). The expression
  raises nothing; with telemetry and a production of 0 the value is an infinity or NaN,
  and otherwise it is the real quotient.
\<close>

theorem fuel_efficiency_quotient:
  assumes "m \<in> set (daily_production_metrics transformed_sql_data transformed_iot_data
      transformed_weather_data)"
  shows "fuel_efficiency m =
      (case telemetry m of None \<Rightarrow> None
       | Some t \<Rightarrow> Some (truediv (total_fuel_consumption t)
                          (total_production_daily (production m))))
    \<and> (\<forall>t. telemetry m = Some t \<longrightarrow>
         (if total_production_daily (production m) = 0
          then fuel_efficiency m \<in> {Some PosInf, Some NegInf, Some NaN}
          else fuel_efficiency m
            = Some (Finite (total_fuel_consumption t / total_production_daily (production m)))))"
  using daily_production_metrics_rows(6)[OF assms] by (auto simp: truediv_def)

theorem fuel_efficiency_quotient_witness:
  "ex_metrics_row \<in> set (daily_production_metrics ex_daily ex_iot_daily ex_weather)
    \<and> total_production_daily (production ex_metrics_row) = 0
    \<and> map_option total_fuel_consumption (telemetry ex_metrics_row) = Some 5
    \<and> fuel_efficiency ex_metrics_row = Some (truediv 5 0)
    \<and> fuel_efficiency ex_metrics_row \<in> {Some PosInf, Some NegInf, Some NaN}"
proof -
  have m: "ex_metrics_row \<in> set (daily_production_metrics ex_daily ex_iot_daily ex_weather)"
    by (simp add: ex_metrics)
  have t: "telemetry ex_metrics_row
      = Some \<lparr>date = 738886, equipment_utilization = 1 / 2, total_fuel_consumption = 5\<rparr>"
    and p: "total_production_daily (production ex_metrics_row) = 0"
    by (simp_all add: ex_metrics_row_def)
  from fuel_efficiency_quotient[OF m] m t p show ?thesis by auto
qed

section \<open>The weather fetch\<close>

lemmas strptime_defs = strptime_def digit_value_def decimal_zeros_def in_class_def ascii_value_def
  days_in_month_def is_leap_def toordinal_def days_before_month_def days_before_year_def

lemmas strftime_defs = strftime_def ord2ymd_def Let_def days_before_month_def
  days_in_month_def is_leap_def digit_char_def year_digits_def

lemma ex_strptime:
  "strptime (ascii ''2024-01-01'') = Some 738886" "strptime (ascii ''2024-01-02'') = Some 738887"
  "strptime (ascii ''2024-01-24'') = Some 738909" "strptime (ascii ''2024-01-25'') = Some 738910"
  "strptime (ascii ''2024-01-26'') = Some 738911"
  by (simp_all add: strptime_defs)

lemma ex_strftime:
  "strftime 738909 = (ascii ''2024-01-24'')" "strftime 738910 = (ascii ''2024-01-25'')"
  "strftime 738911 = (ascii ''2024-01-26'')"
  by (simp_all add: strftime_defs)

lemma ex_unsorted_fetch:
  "load_weather_data strptime ex_now ex_web_unsorted (ascii ''2024-01-01'') (ascii ''2024-01-02'')
     = ([Archive (ascii ''2024-01-01'') (ascii ''2024-01-02'')],
        Inr [\<lparr>date = 738887, mean_temperature = Some 27, total_precipitation = Some 0\<rparr>,
             \<lparr>date = 738886, mean_temperature = Some 26, total_precipitation = None\<rparr>])"
  by (simp add: load_weather_data_def is_valid_date_def ex_strptime[simplified] ex_strftime datetime_less_def ex_now_def
      ex_web_unsorted_def from_dict_def Let_def)

lemma ex_spanning_fetch:
  "load_weather_data strptime ex_now ex_web (ascii ''2024-01-24'') (ascii ''2024-01-26'')
     = ([Archive (ascii ''2024-01-24'') (ascii ''2024-01-25''), Forecast (ascii ''2024-01-25'') (ascii ''2024-01-26'')],
        Inr [\<lparr>date = 738909, mean_temperature = Some 27, total_precipitation = Some 0\<rparr>,
             \<lparr>date = 738910, mean_temperature = Some 27, total_precipitation = Some 0\<rparr>,
             \<lparr>date = 738910, mean_temperature = Some 27, total_precipitation = Some 0\<rparr>,
             \<lparr>date = 738911, mean_temperature = Some 27, total_precipitation = Some 0\<rparr>])"
  by (simp add: load_weather_data_def is_valid_date_def ex_strptime[simplified] ex_strftime datetime_less_def ex_now_def
      ex_web_def from_dict_def extend_daily_def Let_def)

lemma strptime_Nil: "strptime [] = None"
  by (simp add: strptime_def)

lemma those_length: "those xs = Some ys \<Longrightarrow> length ys = length xs"
  by (induction xs arbitrary: ys) (auto split: option.splits)

lemma from_dict_not_ValueError: "from_dict to_date response \<noteq> Inl (ValueError m)"
  by (simp add: from_dict_def split: option.splits)

lemma from_dict_dates:
  assumes "from_dict to_date response = Inr weather_data"
  shows "those (map to_date (time response)) = Some (map date weather_data)"
proof -
  from assms obtain dates where d: "those (map to_date (time response)) = Some dates"
    and len: "length (temperature_2m_mean response) = length (time response)"
      "length (precipitation_sum response) = length (time response)"
    and w: "weather_data = map (\<lambda>(d, t, p). \<lparr>date = d, mean_temperature = t, total_precipitation = p\<rparr>)
                   (zip dates (zip (temperature_2m_mean response) (precipitation_sum response)))"
    by (auto simp: from_dict_def split: if_splits option.splits)
  have "length dates = length (time response)"
    using those_length[OF d] by simp
  with len have "map fst (zip dates (zip (temperature_2m_mean response) (precipitation_sum response))) = dates"
    by simp
  moreover have "map date weather_data
      = map fst (zip dates (zip (temperature_2m_mean response) (precipitation_sum response)))"
    unfolding w by (simp add: case_prod_unfold)
  ultimately show ?thesis using d by simp
qed

lemma from_dict_nonempty:
  assumes "from_dict to_date response = Inr weather_data"
  shows "weather_data \<noteq> []"
proof -
  from assms have "time response \<noteq> []"
    by (auto simp: from_dict_def split: if_splits)
  moreover have "length (map date weather_data) = length (map to_date (time response))"
    using those_length[OF from_dict_dates[OF assms]] .
  ultimately show ?thesis by auto
qed

lemma load_weather_data_nonempty:
  assumes "load_weather_data to_date now get start_date end_date = (reqs, Inr weather_data)"
  shows "weather_data \<noteq> []"
  using assms
  by (auto simp: load_weather_data_def is_valid_date_def Let_def
      split: if_splits option.splits dest!: from_dict_nonempty)

lemma load_weather_data_order:
  assumes "load_weather_data to_date now get start_date end_date = (reqs, Inr weather_data)"
  shows "those (map to_date (concat (map (\<lambda>r. time (json_daily (get r))) reqs)))
      = Some (map date weather_data)"
  using assms
  by (auto simp: load_weather_data_def is_valid_date_def Let_def extend_daily_def
      split: if_splits option.splits dest!: from_dict_dates)

text \<open>
  C6, as the code has it. The table of a successful fetch lists the days in the order of
  the arrays of the responses, those of the first request before those of the second;
  \<^verbatim>\<open>load_weather_data\<close> sorts nothing. The table is sorted by \<^verbatim>\<open>transform_weather_data\<close>,
  which \<^verbatim>\<open>main\<close> applies to it: the table of a successful fetch has rows, and the transform
  returns the same rows with their dates ascending.
\<close>

theorem weather_sorted_after_transform:
  assumes "load_weather_data to_date now get start_date end_date = (reqs, Inr weather_data)"
  shows "those (map to_date (concat (map (\<lambda>r. time (json_daily (get r))) reqs)))
      = Some (map date weather_data)
    \<and> weather_data \<noteq> []
    \<and> (\<exists>t. transform_weather_data weather_data = Inr t
        \<and> sorted (map date t) \<and> mset t = mset weather_data)"
proof -
  have "sorted (map date (sort_key date weather_data))"
    by (rule sorted_sort_key)
  then show ?thesis
    using load_weather_data_order[OF assms] load_weather_data_nonempty[OF assms]
    by (auto simp: transform_weather_data_def)
qed

text \<open>
  C10. With the clock past day 90, a well-formed date given as both start and end is
  accepted: one request is sent, for that single day, to the archive or to the forecast,
  and no \<^verbatim>\<open>ValueError\<close> is raised. The error of an inverted range is raised exactly when both
  dates are well-formed and the start is strictly later than the end.
\<close>

theorem equal_dates_accepted:
  "(is_valid_date d \<and> 90 < day now \<longrightarrow>
      (\<exists>r. fst (load_weather_data to_date now get d d) = [r] \<and> (r = Archive d d \<or> r = Forecast d d))
      \<and> (\<forall>m. snd (load_weather_data to_date now get d d) \<noteq> Inl (ValueError m)))
   \<and> (snd (load_weather_data to_date now get start_date end_date)
          = Inl (ValueError ''Start date must be before end date'')
        \<longleftrightarrow> (\<exists>s e. strptime start_date = Some s \<and> strptime end_date = Some e \<and> e < s))"
proof -
  have 1: "(\<exists>r. fst (load_weather_data to_date now get d d) = [r] \<and> (r = Archive d d \<or> r = Forecast d d))
      \<and> (\<forall>m. snd (load_weather_data to_date now get d d) \<noteq> Inl (ValueError m))"
    if "is_valid_date d" "90 < day now"
  proof -
    from that(1) obtain s where s: "strptime d = Some s"
      by (auto simp: is_valid_date_def)
    then have "d \<noteq> []" using strptime_Nil by auto
    with s that(2) show ?thesis
      by (simp add: load_weather_data_def is_valid_date_def Let_def from_dict_not_ValueError)
  qed
  have 2: "snd (load_weather_data to_date now get start_date end_date)
          = Inl (ValueError ''Start date must be before end date'')
        \<longleftrightarrow> (\<exists>s e. strptime start_date = Some s \<and> strptime end_date = Some e \<and> e < s)"
  proof (cases "strptime start_date")
    case None
    then show ?thesis by (simp add: load_weather_data_def is_valid_date_def)
  next
    case (Some s)
    note s = this
    show ?thesis
    proof (cases "strptime end_date")
      case None
      with s show ?thesis by (simp add: load_weather_data_def is_valid_date_def)
    next
      case (Some e)
      from s Some have "start_date \<noteq> []" "end_date \<noteq> []"
        using strptime_Nil by auto
      with s Some show ?thesis
        by (simp add: load_weather_data_def is_valid_date_def Let_def from_dict_not_ValueError)
    qed
  qed
  from 1 2 show ?thesis by blast
qed

theorem equal_dates_accepted_witness:
  "is_valid_date (ascii ''2024-01-24'') \<and> 90 < day ex_now
    \<and> (\<exists>r. fst (load_weather_data strptime ex_now ex_web (ascii ''2024-01-24'') (ascii ''2024-01-24'')) = [r]
          \<and> (r = Archive (ascii ''2024-01-24'') (ascii ''2024-01-24'') \<or> r = Forecast (ascii ''2024-01-24'') (ascii ''2024-01-24'')))
    \<and> snd (load_weather_data strptime ex_now ex_web (ascii ''2024-01-26'') (ascii ''2024-01-25''))
        = Inl (ValueError ''Start date must be before end date'')"
proof -
  have v: "is_valid_date (ascii ''2024-01-24'')" and n: "90 < day ex_now"
    by (simp_all add: is_valid_date_def ex_strptime[simplified] ex_now_def)
  have i: "\<exists>s e. strptime (ascii ''2024-01-26'') = Some s \<and> strptime (ascii ''2024-01-25'') = Some e \<and> e < s"
    by (simp add: ex_strptime[simplified])
  from equal_dates_accepted[of "(ascii ''2024-01-24'')" ex_now strptime ex_web "(ascii ''2024-01-26'')" "(ascii ''2024-01-25'')"]
    v n i show ?thesis by blast
qed

theorem weather_sorted_after_transform_witness:
  "load_weather_data strptime ex_now ex_web_unsorted (ascii ''2024-01-01'') (ascii ''2024-01-02'')
     = ([Archive (ascii ''2024-01-01'') (ascii ''2024-01-02'')],
        Inr [\<lparr>date = 738887, mean_temperature = Some 27, total_precipitation = Some 0\<rparr>,
             \<lparr>date = 738886, mean_temperature = Some 26, total_precipitation = None\<rparr>])
   \<and> (\<exists>t. transform_weather_data
          [\<lparr>date = 738887, mean_temperature = Some 27, total_precipitation = Some 0\<rparr>,
           \<lparr>date = 738886, mean_temperature = Some 26, total_precipitation = None\<rparr>] = Inr t
        \<and> sorted (map date t)
        \<and> mset t = mset
          [\<lparr>date = 738887, mean_temperature = Some 27, total_precipitation = Some 0\<rparr>,
           \<lparr>date = 738886, mean_temperature = Some 26, total_precipitation = None\<rparr>])"
  using weather_sorted_after_transform[OF ex_unsorted_fetch] ex_unsorted_fetch by simp

text \<open>
  The table that \<^verbatim>\<open>load_weather_data\<close> returns is not sorted when the response is not.
\<close>

theorem weather_fetch_sorted_counterexample:
  "load_weather_data strptime ex_now ex_web_unsorted (ascii ''2024-01-01'') (ascii ''2024-01-02'')
     = ([Archive (ascii ''2024-01-01'') (ascii ''2024-01-02'')],
        Inr [\<lparr>date = 738887, mean_temperature = Some 27, total_precipitation = Some 0\<rparr>,
             \<lparr>date = 738886, mean_temperature = Some 26, total_precipitation = None\<rparr>])
   \<and> \<not> sorted (map date
        [\<lparr>date = 738887, mean_temperature = Some 27, total_precipitation = Some 0\<rparr>,
         \<lparr>date = 738886, mean_temperature = Some 26, total_precipitation = None\<rparr>])"
  using ex_unsorted_fetch by simp

text \<open>
  The range that spans the boundary: both requests carry the day of the boundary, the
  archive as its \<^verbatim>\<open>end_date\<close> and the forecast as its \<^verbatim>\<open>start_date\<close>.
\<close>

lemma load_weather_data_spanning:
  assumes "strptime start_date = Some s" and "strptime end_date = Some e" and "s \<le> e"
    and "90 < day now"
    and "datetime_less \<lparr>day = s, usec = 0\<rparr> (now\<lparr>day := day now - 90\<rparr>)"
    and "\<not> datetime_less \<lparr>day = e, usec = 0\<rparr> (now\<lparr>day := day now - 90\<rparr>)"
  shows "fst (load_weather_data to_date now get start_date end_date)
     = [Archive start_date (strftime (day now - 90)), Forecast (strftime (day now - 90)) end_date]"
proof -
  from assms(1,2) have "start_date \<noteq> []" "end_date \<noteq> []"
    using strptime_Nil by auto
  with assms show ?thesis
    by (simp add: load_weather_data_def is_valid_date_def Let_def)
qed

text \<open>
  C1, on the code. With the boundary at 2024-01-25 09:30 the range from 2024-01-24 to
  2024-01-26 spans it. Two requests are sent, the archive first, and the rows of the
  archive come before those of the forecast; but the archive is asked for 2024-01-24 to
  2024-01-25 and the forecast for 2024-01-25 to 2024-01-26, so day 738910, the day of the
  boundary, is asked of both and is twice in the table.
\<close>

theorem boundary_day_requested_twice:
  "load_weather_data strptime ex_now ex_web (ascii ''2024-01-24'') (ascii ''2024-01-26'')
     = ([Archive (ascii ''2024-01-24'') (ascii ''2024-01-25''), Forecast (ascii ''2024-01-25'') (ascii ''2024-01-26'')],
        Inr [\<lparr>date = 738909, mean_temperature = Some 27, total_precipitation = Some 0\<rparr>,
             \<lparr>date = 738910, mean_temperature = Some 27, total_precipitation = Some 0\<rparr>,
             \<lparr>date = 738910, mean_temperature = Some 27, total_precipitation = Some 0\<rparr>,
             \<lparr>date = 738911, mean_temperature = Some 27, total_precipitation = Some 0\<rparr>])
   \<and> strftime (day ex_now - 90) = (ascii ''2024-01-25'')
   \<and> requested_days (Archive (ascii ''2024-01-24'') (ascii ''2024-01-25'')) = [738909, 738910]
   \<and> requested_days (Forecast (ascii ''2024-01-25'') (ascii ''2024-01-26'')) = [738910, 738911]"
  using ex_spanning_fetch by (simp add: ex_strptime[simplified] ex_strftime ex_now_def)

text \<open>
  The same run, read off: the requests sent, and the day of the boundary among the days
  of each.
\<close>

theorem boundary_day_requested_twice_witness:
  "fst (load_weather_data strptime ex_now ex_web (ascii ''2024-01-24'') (ascii ''2024-01-26''))
     = [Archive (ascii ''2024-01-24'') (ascii ''2024-01-25''), Forecast (ascii ''2024-01-25'') (ascii ''2024-01-26'')]
   \<and> 738910 \<in> set (requested_days (Archive (ascii ''2024-01-24'') (ascii ''2024-01-25'')))
   \<and> 738910 \<in> set (requested_days (Forecast (ascii ''2024-01-25'') (ascii ''2024-01-26'')))"
proof -
  from boundary_day_requested_twice
  have f: "load_weather_data strptime ex_now ex_web (ascii ''2024-01-24'') (ascii ''2024-01-26'')
     = ([Archive (ascii ''2024-01-24'') (ascii ''2024-01-25''), Forecast (ascii ''2024-01-25'') (ascii ''2024-01-26'')],
        Inr [\<lparr>date = 738909, mean_temperature = Some 27, total_precipitation = Some 0\<rparr>,
             \<lparr>date = 738910, mean_temperature = Some 27, total_precipitation = Some 0\<rparr>,
             \<lparr>date = 738910, mean_temperature = Some 27, total_precipitation = Some 0\<rparr>,
             \<lparr>date = 738911, mean_temperature = Some 27, total_precipitation = Some 0\<rparr>])"
    and a: "requested_days (Archive (ascii ''2024-01-24'') (ascii ''2024-01-25'')) = [738909, 738910]"
    and b: "requested_days (Forecast (ascii ''2024-01-25'') (ascii ''2024-01-26'')) = [738910, 738911]"
    by blast+
  show ?thesis unfolding f a b by simp
qed

section \<open>The join on the table of a fetch\<close>


end
